theory Spec2Isabelle
  imports Main "HOL-Library.Sublist" "HOL-Library.Char_ord"
begin

section \<open>Strings and character classes\<close>

text \<open>
  A Python \<open>str\<close> is modelled as a \<open>string\<close> whose characters stand for the code points
  below 256. On that range \<open>str.isspace\<close> and the pattern class \<open>\s\<close> hold for the same
  twelve code points.
\<close>

definition newline :: char where
  "newline = CHR 0x0A"

definition is_space :: "char \<Rightarrow> bool" where
  "is_space c = (c \<in> set [CHR 0x09, CHR 0x0A, CHR 0x0B, CHR 0x0C, CHR 0x0D,
                         CHR 0x1C, CHR 0x1D, CHR 0x1E, CHR 0x1F, CHR 0x20,
                         CHR 0x85, CHR 0xA0])"

definition non_space :: "char \<Rightarrow> bool" where
  \<comment> \<open>\<open>[^\s]\<close>\<close>
  "non_space c = (\<not> is_space c)"

definition is_word :: "char \<Rightarrow> bool" where
  \<comment> \<open>\<open>[A-Za-z0-9_]\<close>\<close>
  "is_word c = ((CHR ''A'' \<le> c \<and> c \<le> CHR ''Z'') \<or> (CHR ''a'' \<le> c \<and> c \<le> CHR ''z'')
              \<or> (CHR ''0'' \<le> c \<and> c \<le> CHR ''9'') \<or> c = CHR ''_'')"

definition is_tbl :: "char \<Rightarrow> bool" where
  \<comment> \<open>\<open>[:A-Za-z0-9_]\<close>\<close>
  "is_tbl c = (c = CHR '':'' \<or> is_word c)"

definition not_dot :: "char \<Rightarrow> bool" where
  \<comment> \<open>\<open>[^.]\<close>\<close>
  "not_dot c = (c \<noteq> CHR ''.'')"

definition not_rbracket :: "char \<Rightarrow> bool" where
  \<comment> \<open>\<open>[^\]]\<close>\<close>
  "not_rbracket c = (c \<noteq> CHR '']'')"

definition any_char :: "char \<Rightarrow> bool" where
  \<comment> \<open>\<open>.\<close> without DOTALL: every character but the line feed\<close>
  "any_char c = (c \<noteq> newline)"

definition strip :: "string \<Rightarrow> string" where
  \<comment> \<open>\<open>str.strip()\<close>\<close>
  "strip s = rev (dropWhile is_space (rev (dropWhile is_space s)))"

section \<open>Backtracking pattern matching\<close>

text \<open>
  The two patterns of the module quantify character classes only, so the pattern
  language has a greedy and a lazy repetition of a class, sequence, alternation,
  numbered groups, a lookahead and the two anchors.
\<close>

datatype re =
    Eps
  | Lit string
  | Cls "char \<Rightarrow> bool"
  | Star "char \<Rightarrow> bool"
  | LazyStar "char \<Rightarrow> bool"
  | Seq re re
  | Alt re re
  | Group nat re
  | Look re
  | Bol
  | Eol

definition Plus :: "(char \<Rightarrow> bool) \<Rightarrow> re" where
  "Plus p = Seq (Cls p) (Star p)"

definition cat :: "re list \<Rightarrow> re" where
  "cat rs = foldr Seq rs Eps"

text \<open>
  A matcher state is the number of characters consumed so far, the text still to be
  read and the groups closed so far (latest first).
\<close>

type_synonym mstate = "nat \<times> string \<times> (nat \<times> string) list"

fun greedy :: "(char \<Rightarrow> bool) \<Rightarrow> mstate \<Rightarrow> mstate list" where
  "greedy p (i, [], g) = [(i, [], g)]"
| "greedy p (i, c # cs, g) =
     (if p c then greedy p (Suc i, cs, g) @ [(i, c # cs, g)] else [(i, c # cs, g)])"

fun lazy :: "(char \<Rightarrow> bool) \<Rightarrow> mstate \<Rightarrow> mstate list" where
  "lazy p (i, [], g) = [(i, [], g)]"
| "lazy p (i, c # cs, g) =
     (i, c # cs, g) # (if p c then lazy p (Suc i, cs, g) else [])"

text \<open>
  \<open>ms r st\<close> lists every way in which \<open>r\<close> matches at \<open>st\<close>, in the order in which a
  backtracking matcher tries them; the matcher's answer is the first.
\<close>

fun ms :: "re \<Rightarrow> mstate \<Rightarrow> mstate list" where
  "ms Eps st = [st]"
| "ms (Lit l) (i, s, g) =
     (if prefix l s then [(i + length l, drop (length l) s, g)] else [])"
| "ms (Cls p) (i, s, g) =
     (case s of [] \<Rightarrow> [] | c # cs \<Rightarrow> if p c then [(Suc i, cs, g)] else [])"
| "ms (Star p) st = greedy p st"
| "ms (LazyStar p) st = lazy p st"
| "ms (Seq a b) st = concat (map (ms b) (ms a st))"
| "ms (Alt a b) st = ms a st @ ms b st"
| "ms (Group n r) (i, s, g) =
     map (\<lambda>(j, s', g'). (j, s', (n, take (j - i) s) # g')) (ms r (i, s, g))"
| "ms (Look r) st = (if ms r st = [] then [] else [st])"
| "ms Bol (i, s, g) = (if i = 0 then [(i, s, g)] else [])"
| "ms Eol (i, s, g) = (if s = [] \<or> s = [newline] then [(i, s, g)] else [])"

definition re_match :: "re \<Rightarrow> string \<Rightarrow> mstate option" where
  \<comment> \<open>\<open>pattern.match(s)\<close>: the pattern is tried at the start of \<open>s\<close> only\<close>
  "re_match r s = (case ms r (0, s, []) of [] \<Rightarrow> None | m # _ \<Rightarrow> Some m)"

definition group :: "mstate \<Rightarrow> nat \<Rightarrow> string" where
  "group m n = (case map_of (snd (snd m)) n of None \<Rightarrow> [] | Some t \<Rightarrow> t)"

text \<open>
  \<open>pattern.finditer(s)\<close>: the leftmost match from the current position, then the search
  goes on where that match ended. A match that consumes nothing moves the search one
  character on.
\<close>

function finditer :: "re \<Rightarrow> string \<Rightarrow> mstate list" where
  "finditer r s =
     (case ms r (0, s, []) of
        [] \<Rightarrow> (case s of [] \<Rightarrow> [] | _ # cs \<Rightarrow> finditer r cs)
      | (j, s', g) # _ \<Rightarrow>
          (j, s', g) #
            (if length s' < length s then finditer r s'
             else (case s of [] \<Rightarrow> [] | _ # cs \<Rightarrow> finditer r cs)))"
  by pat_completeness auto
termination
  by (relation "measure (\<lambda>(r, s). length s)") auto

section \<open>The decoder\<close>

definition TBL_RE :: re where
  \<comment> \<open>\<open>^table\s+([^.]+)\.([:A-Za-z0-9_]+):\s+(INSERT|UPDATE|DELETE):\s+(.*)$\<close>\<close>
  "TBL_RE = cat [Bol, Lit ''table'', Plus is_space, Group 1 (Plus not_dot), Lit ''.'',
                 Group 2 (Plus is_tbl), Lit '':'', Plus is_space,
                 Group 3 (Alt (Lit ''INSERT'') (Alt (Lit ''UPDATE'') (Lit ''DELETE''))),
                 Lit '':'', Plus is_space, Group 4 (Star any_char), Eol]"

definition KV_RE :: re where
  \<comment> \<open>\<open>([A-Za-z0-9_]+)\[[^\]]+\]:([^\s].*?)(?=\s+[A-Za-z0-9_]+\[|\s*$)\<close>\<close>
  "KV_RE = cat [Group 1 (Plus is_word), Lit ''['', Plus not_rbracket, Lit '']:'',
                Group 2 (Seq (Cls non_space) (LazyStar any_char)),
                Look (Alt (cat [Plus is_space, Plus is_word, Lit ''[''])
                          (cat [Star is_space, Eol]))]"

record parsed =
  schema :: string
  table :: string
  op :: string
  cols :: "(string \<times> string) list"

fun dict_set :: "(string \<times> string) list \<Rightarrow> string \<Rightarrow> string \<Rightarrow> (string \<times> string) list" where
  \<comment> \<open>\<open>d[k] = v\<close> on an insertion-ordered dict\<close>
  "dict_set [] k v = [(k, v)]"
| "dict_set ((k', v') # d) k v =
     (if k' = k then (k, v) # d else (k', v') # dict_set d k v)"

definition sq :: string where
  \<comment> \<open>the single quote, as a one-character string\<close>
  "sq = [CHR 0x27]"

definition unquote :: "string \<Rightarrow> string" where
  \<comment> \<open>lines 37 to 39: \<open>v = v.strip()\<close>, then \<open>v[1:-1]\<close> when \<open>v\<close> is quoted\<close>
  "unquote v0 =
     (let v = strip v0
      in if length v \<ge> 2 \<and> hd v = CHR 0x27 \<and> last v = CHR 0x27
         then butlast (tl v) else v)"

definition parse_test_decoding_row :: "string \<Rightarrow> parsed option" where
  \<comment> \<open>\<open>None\<close> stands for the empty dict the function returns on no match\<close>
  "parse_test_decoding_row raw =
     (case re_match TBL_RE (strip raw) of
        None \<Rightarrow> None
      | Some m \<Rightarrow>
          Some \<lparr>schema = group m 1, table = group m 2, op = group m 3,
                cols = fold (\<lambda>km cols. dict_set cols (group km 1) (unquote (group km 2)))
                            (finditer KV_RE (group m 4)) []\<rparr>)"

section \<open>Fetching from the replication slot\<close>

datatype error = EngineError | MinioError

record raw_row =
  lsn :: string
  xid :: int
  data :: string

text \<open>
  The statement sent by \<open>fetch_cdc_changes\<close> is a call of
  \<open>pg_logical_slot_get_changes\<close>; the record holds its arguments: the slot, the
  \<open>NULL\<close> position bound, the row limit and the option pairs that follow them.
\<close>

record slot_call =
  slot :: string
  upto_lsn :: "string option"
  upto_nchanges :: int
  options :: "(string \<times> string) list"

definition get_changes_call :: "string \<Rightarrow> int \<Rightarrow> slot_call" where
  "get_changes_call slot_name limit =
     \<lparr>slot = slot_name, upto_lsn = None, upto_nchanges = limit,
      options = [(''include-xids'', ''0''), (''skip-empty-xacts'', ''1'')]\<rparr>"

type_synonym engine = "slot_call \<Rightarrow> error + (string \<times> int \<times> string) list"

definition fetch_cdc_changes :: "engine \<Rightarrow> string \<Rightarrow> int \<Rightarrow> error + raw_row list" where
  "fetch_cdc_changes engine slot_name limit =
     (case engine (get_changes_call slot_name limit) of
        Inl e \<Rightarrow> Inl e
      | Inr res \<Rightarrow> Inr (map (\<lambda>(l, x, d). \<lparr>lsn = l, xid = x, data = d\<rparr>) res))"

section \<open>Clock readings\<close>

record datetime =
  year :: nat
  month :: nat
  day :: nat
  hour :: nat
  minute :: nat
  second :: nat
  microsecond :: nat

definition digit :: "nat \<Rightarrow> char" where
  "digit n = char_of (48 + n mod 10)"

fun dec :: "nat \<Rightarrow> string" where
  "dec n = (if n < 10 then [digit n] else dec (n div 10) @ [digit n])"

declare dec.simps [simp del]

definition zfill :: "nat \<Rightarrow> nat \<Rightarrow> string" where
  \<comment> \<open>\<open>%0wd\<close>\<close>
  "zfill w n = replicate (w - length (dec n)) (CHR ''0'') @ dec n"

definition isoformat :: "datetime \<Rightarrow> string" where
  "isoformat t =
     zfill 4 (year t) @ ''-'' @ zfill 2 (month t) @ ''-'' @ zfill 2 (day t) @ ''T'' @
     zfill 2 (hour t) @ '':'' @ zfill 2 (minute t) @ '':'' @ zfill 2 (second t) @
     (if microsecond t = 0 then [] else ''.'' @ zfill 6 (microsecond t))"

definition date_partition_str :: "datetime \<Rightarrow> string" where
  \<comment> \<open>\<open>now.strftime("data=%Y%m%d")\<close>, for a year of four digits\<close>
  "date_partition_str now = ''data='' @ zfill 4 (year now) @ zfill 2 (month now) @ zfill 2 (day now)"

definition file_timestamp_str :: "datetime \<Rightarrow> string" where
  \<comment> \<open>\<open>now.strftime("%Y%m%d_%H%M%S")\<close>\<close>
  "file_timestamp_str now =
     zfill 4 (year now) @ zfill 2 (month now) @ zfill 2 (day now) @ ''_'' @
     zfill 2 (hour now) @ zfill 2 (minute now) @ zfill 2 (second now)"

section \<open>The filter\<close>

fun join :: "string \<Rightarrow> string list \<Rightarrow> string" where
  "join sep [] = []"
| "join sep [x] = x"
| "join sep (x # y # ys) = x @ sep @ join sep (y # ys)"

definition hex4 :: "nat \<Rightarrow> string" where
  \<comment> \<open>\<open>'{0:04x}'.format(n)\<close> for \<open>n < 65536\<close>\<close>
  "hex4 n = map (\<lambda>k. ''0123456789abcdef'' ! (n div 16 ^ k mod 16)) [3, 2, 1, 0]"

definition json_escape :: "char \<Rightarrow> string" where
  \<comment> \<open>the escape table of \<open>json.dumps(..., ensure_ascii=False)\<close>\<close>
  "json_escape c =
     (if c = CHR 0x22 then [CHR 0x5C, CHR 0x22]
      else if c = CHR 0x5C then [CHR 0x5C, CHR 0x5C]
      else if c = CHR 0x0A then [CHR 0x5C, CHR ''n'']
      else if c = CHR 0x0D then [CHR 0x5C, CHR ''r'']
      else if c = CHR 0x09 then [CHR 0x5C, CHR ''t'']
      else if c = CHR 0x08 then [CHR 0x5C, CHR ''b'']
      else if c = CHR 0x0C then [CHR 0x5C, CHR ''f'']
      else if c < CHR 0x20 then [CHR 0x5C, CHR ''u''] @ hex4 (of_char c)
      else [c])"

definition json_str :: "string \<Rightarrow> string" where
  "json_str s = [CHR 0x22] @ concat (map json_escape s) @ [CHR 0x22]"

definition json_dumps :: "(string \<times> string) list \<Rightarrow> string" where
  "json_dumps d = ''{'' @ join '', '' (map (\<lambda>(k, v). json_str k @ '': '' @ json_str v) d) @ ''}''"

text \<open>
  One row of the frame. The fields \<open>row_lsn\<close> and \<open>row_op\<close> are the entries \<open>"lsn"\<close> and
  \<open>"op"\<close> of the dict appended to \<open>out\<close>. A frame is the list of its rows; the empty list
  is the frame \<open>pd.DataFrame()\<close>, which has no columns.
\<close>

record captured =
  capture_ts :: string
  row_lsn :: string
  row_op :: string
  columns :: string

type_synonym dataframe = "captured list"

fun process_rows :: "string \<Rightarrow> string \<Rightarrow> string \<Rightarrow> raw_row list \<Rightarrow> captured list" where
  "process_rows cts target_schema target_table [] = []"
| "process_rows cts target_schema target_table (r # rs) =
     (case parse_test_decoding_row (data r) of
        None \<Rightarrow> process_rows cts target_schema target_table rs
      | Some p \<Rightarrow>
          if schema p = target_schema \<and> table p = target_table
          then \<lparr>capture_ts = cts, row_lsn = lsn r, row_op = op p,
                columns = json_dumps (cols p)\<rparr>
               # process_rows cts target_schema target_table rs
          else process_rows cts target_schema target_table rs)"

definition process_cdc_for_cliente ::
  "raw_row list \<Rightarrow> string \<Rightarrow> string \<Rightarrow> datetime \<Rightarrow> dataframe" where
  \<comment> \<open>the last argument is the reading of \<open>datetime.now()\<close> on line 56\<close>
  "process_cdc_for_cliente raw_rows target_schema target_table now =
     process_rows (isoformat now) target_schema target_table raw_rows"

section \<open>The writer\<close>

definition df_columns :: "dataframe \<Rightarrow> string list" where
  "df_columns df = (if df = [] then [] else [''capture_ts'', ''lsn'', ''op'', ''columns''])"

definition csv_special :: "char \<Rightarrow> bool" where
  "csv_special c = (c = CHR '','' \<or> c = CHR 0x22 \<or> c = CHR 0x0A \<or> c = CHR 0x0D)"

definition csv_field :: "string \<Rightarrow> string" where
  \<comment> \<open>minimal quoting, an embedded double quote is doubled\<close>
  "csv_field f =
     (if list_ex csv_special f
      then [CHR 0x22] @ concat (map (\<lambda>c. if c = CHR 0x22 then [c, c] else [c]) f) @ [CHR 0x22]
      else f)"

definition csv_line :: "string list \<Rightarrow> string" where
  "csv_line fs = join '','' (map csv_field fs)"

definition csv_row :: "string list \<Rightarrow> string" where
  \<comment> \<open>\<open>writerow\<close>: the fields, then the line terminator\<close>
  "csv_row fs = csv_line fs @ [newline]"

definition to_csv :: "dataframe \<Rightarrow> string" where
  \<comment> \<open>\<open>df.to_csv(index=False)\<close>: the column names, then one row per record\<close>
  "to_csv df =
     csv_row (df_columns df) @
     concat (map (\<lambda>r. csv_row [capture_ts r, row_lsn r, row_op r, columns r]) df)"

definition encode_char :: "char \<Rightarrow> string" where
  \<comment> \<open>UTF-8 of a code point below 256, as bytes\<close>
  "encode_char c =
     (if c < CHR 0x80 then [c]
      else [char_of (192 + (of_char c :: nat) div 64), char_of (128 + (of_char c :: nat) mod 64)])"

definition encode_utf8 :: "string \<Rightarrow> string" where
  "encode_utf8 s = concat (map encode_char s)"

record put_call =
  bucket_name :: string
  object_name :: string
  payload :: string
  payload_length :: nat
  content_type :: string

text \<open>
  The object store: the objects put so far, oldest first, and whether it is reachable.
  \<open>put_object\<close> raises when it is not.
\<close>

record minio =
  stored :: "put_call list"
  online :: bool

definition put_object :: "minio \<Rightarrow> put_call \<Rightarrow> error + minio" where
  "put_object client c =
     (if online client then Inr (client\<lparr>stored := stored client @ [c]\<rparr>) else Inl MinioError)"

definition write_csv_to_minio ::
  "minio \<Rightarrow> string \<Rightarrow> string \<Rightarrow> dataframe \<Rightarrow> string \<Rightarrow> datetime \<Rightarrow> error + (string \<times> minio)" where
  \<comment> \<open>\<open>pfx\<close> is the parameter \<open>prefix\<close>; the last argument is the reading of
      \<open>datetime.now()\<close> on line 71\<close>
  "write_csv_to_minio minio_client bucket base_path df pfx now =
     (let file_name = pfx @ ''_'' @ file_timestamp_str now @ ''.csv'';
          name = base_path @ date_partition_str now @ ''/'' @ file_name;
          csv_bytes = encode_utf8 (to_csv df)
      in case put_object minio_client
                \<lparr>bucket_name = bucket, object_name = name, payload = csv_bytes,
                 payload_length = length csv_bytes, content_type = ''text/csv''\<rparr> of
           Inl e \<Rightarrow> Inl e
         | Inr client' \<Rightarrow> Inr (name, client'))"

section \<open>The driver\<close>

record config =
  PGSCHEMA :: string
  CDC_SLOT_NAME :: string
  CDC_BATCH_LIMIT :: int

definition BUCKET_NAME :: string where
  "BUCKET_NAME = ''raw''"

definition RAW_INC_BASE_PATH :: string where
  "RAW_INC_BASE_PATH = ''inc/''"

definition TARGET_TABLE :: string where
  "TARGET_TABLE = ''cliente''"

text \<open>
  What one run of \<open>main\<close> reports: nothing fetched, nothing for the target table, or the
  object written and the number of records in it.
\<close>

datatype outcome = NoChanges | NoTargetChanges | Written string nat

fun destination :: "outcome \<Rightarrow> string option" where
  "destination NoChanges = None"
| "destination NoTargetChanges = None"
| "destination (Written dest n) = Some dest"

definition main ::
  "config \<Rightarrow> engine \<Rightarrow> minio \<Rightarrow> datetime \<Rightarrow> datetime \<Rightarrow> error + (outcome \<times> minio)" where
  \<comment> \<open>\<open>t_capture\<close> and \<open>t_write\<close> are the two clock readings of the run, in that order\<close>
  "main cfg engine minio_client t_capture t_write =
     (case fetch_cdc_changes engine (CDC_SLOT_NAME cfg) (CDC_BATCH_LIMIT cfg) of
        Inl e \<Rightarrow> Inl e
      | Inr raw_rows \<Rightarrow>
          if raw_rows = [] then Inr (NoChanges, minio_client)
          else
            let df = process_cdc_for_cliente raw_rows (PGSCHEMA cfg) TARGET_TABLE t_capture
            in if df = [] then Inr (NoTargetChanges, minio_client)
               else
                 (case write_csv_to_minio minio_client BUCKET_NAME RAW_INC_BASE_PATH df
                         ''cliente_cdc'' t_write of
                    Inl e \<Rightarrow> Inl e
                  | Inr (dest, client') \<Rightarrow> Inr (Written dest (length df), client')))"

section \<open>Entries that pass the filter\<close>

text \<open>
  What the loop body of \<open>process_cdc_for_cliente\<close> adds for one entry: nothing, or the
  record of that entry. The entries with a record are the matching entries of a batch.
\<close>

definition capture_entry :: "string \<Rightarrow> string \<Rightarrow> string \<Rightarrow> raw_row \<Rightarrow> captured option" where
  "capture_entry cts target_schema target_table r =
     (case parse_test_decoding_row (data r) of
        None \<Rightarrow> None
      | Some p \<Rightarrow>
          if schema p = target_schema \<and> table p = target_table
          then Some \<lparr>capture_ts = cts, row_lsn = lsn r, row_op = op p,
                     columns = json_dumps (cols p)\<rparr>
          else None)"

definition is_match :: "string \<Rightarrow> string \<Rightarrow> raw_row \<Rightarrow> bool" where
  "is_match target_schema target_table r =
     (case parse_test_decoding_row (data r) of
        None \<Rightarrow> False
      | Some p \<Rightarrow> schema p = target_schema \<and> table p = target_table)"

definition record_line :: "captured \<Rightarrow> string" where
  \<comment> \<open>the text of the row that \<open>to_csv\<close> writes for one record, without its line feed\<close>
  "record_line c = csv_line [capture_ts c, row_lsn c, row_op c, columns c]"

text \<open>The lines of a text: the pieces between line feeds, a final line feed ending the last.\<close>

fun lines_of :: "string \<Rightarrow> string list" where
  "lines_of [] = []"
| "lines_of (c # s) =
     (if c = newline then [] # lines_of s
      else (case lines_of s of [] \<Rightarrow> [[c]] | l # ls \<Rightarrow> (c # l) # ls))"

text \<open>
  A text has the table prefix when it reads \<open>table\<close>, white space, a schema without a
  dot, a dot, a table name, a colon, white space, one of the three operation keywords
  and a colon, whatever follows.
\<close>

definition has_table_prefix :: "string \<Rightarrow> bool" where
  "has_table_prefix s \<longleftrightarrow>
     (\<exists>w1 sch tbl w2 opn rest.
        s = ''table'' @ w1 @ sch @ ''.'' @ tbl @ '':'' @ w2 @ opn @ '':'' @ rest
        \<and> w1 \<noteq> [] \<and> list_all is_space w1 \<and> sch \<noteq> [] \<and> list_all not_dot sch
        \<and> tbl \<noteq> [] \<and> list_all is_tbl tbl \<and> w2 \<noteq> [] \<and> list_all is_space w2
        \<and> opn \<in> {''INSERT'', ''UPDATE'', ''DELETE''})"

section \<open>Sample inputs\<close>

definition sample_t_capture :: datetime where
  "sample_t_capture =
     \<lparr>year = 2024, month = 12, day = 31, hour = 23, minute = 59, second = 59,
      microsecond = 125\<rparr>"

definition sample_t_write :: datetime where
  "sample_t_write =
     \<lparr>year = 2025, month = 1, day = 1, hour = 0, minute = 0, second = 0, microsecond = 0\<rparr>"

definition sample_cfg :: config where
  "sample_cfg = \<lparr>PGSCHEMA = ''db_loja'', CDC_SLOT_NAME = ''data_sync_slot'', CDC_BATCH_LIMIT = 1000\<rparr>"

definition sample_client :: minio where
  "sample_client = \<lparr>stored = [], online = True\<rparr>"

definition sample_record :: captured where
  "sample_record =
     \<lparr>capture_ts = ''2025-01-01T00:00:00'', row_lsn = ''0/16B3748'', row_op = ''INSERT'',
      columns = ''{}''\<rparr>"

definition sample_engine :: engine where
  "sample_engine c =
     Inr [(''0/16B3710'', 731, ''BEGIN''),
          (''0/16B3748'', 731, ''table db_loja.cliente: INSERT: id[integer]:1 name[text]:'' @ sq @ ''Ana Silva'' @ sq),
          (''0/16B3750'', 731, ''table db_loja.pedido: INSERT: id[integer]:9''),
          (''0/16B3760'', 731, ''table db_loja.cliente: DELETE: id[integer]:7''),
          (''0/16B3790'', 731, ''COMMIT'')]"

definition other_engine :: engine where
  "other_engine c =
     Inr [(''0/16B3710'', 732, ''BEGIN''),
          (''0/16B3750'', 732, ''table db_loja.pedido: INSERT: id[integer]:9''),
          (''0/16B3790'', 732, ''COMMIT'')]"

definition sample_other_case :: raw_row where
  "sample_other_case =
     \<lparr>lsn = ''0/16B3748'', xid = 731, data = ''table db_loja.Cliente: INSERT: id[integer]:1''\<rparr>"

section \<open>The filter keeps order, target and timestamp\<close>

lemma process_rows_map_filter:
  "process_rows cts ts tt rs = List.map_filter (capture_entry cts ts tt) rs"
  by (induction rs) (auto simp: capture_entry_def List.map_filter_simps split: option.splits)

lemma process_rows_append:
  "process_rows cts ts tt (xs @ ys) = process_rows cts ts tt xs @ process_rows cts ts tt ys"
  by (induction xs) (auto split: option.splits)

lemma process_rows_capture_ts:
  "c \<in> set (process_rows cts ts tt rs) \<Longrightarrow> capture_ts c = cts"
  by (induction rs) (auto split: option.splits if_splits)

text \<open>
  Claim C4. Decoding the payload
  \<^verbatim>\<open>table pub.cliente: INSERT: id[integer]:1 name[text]:'Ana Silva'\<close> gives the schema
  \<open>pub\<close>, the table \<open>cliente\<close>, the operation \<open>INSERT\<close> and the columns \<open>id\<close> with value
  \<open>1\<close> and \<open>name\<close> with value \<open>Ana Silva\<close>, in that order.
\<close>

theorem decode_ana_silva:
  "parse_test_decoding_row
     (''table pub.cliente: INSERT: id[integer]:1 name[text]:'' @ sq @ ''Ana Silva'' @ sq) =
   Some \<lparr>schema = ''pub'', table = ''cliente'', op = ''INSERT'',
         cols = [(''id'', ''1''), (''name'', ''Ana Silva'')]\<rparr>"
  by code_simp

text \<open>
  Claim C6. An entry that decodes to a schema or table other than the target, compared
  as strings and so with case, contributes no record: the frame of a batch holding the
  entry is the frame of the batch without it.
\<close>

theorem filter_drops_other_table:
  assumes "parse_test_decoding_row (data r) = Some p"
    and "schema p \<noteq> target_schema \<or> table p \<noteq> target_table"
  shows "process_cdc_for_cliente (xs @ r # ys) target_schema target_table now =
         process_cdc_for_cliente xs target_schema target_table now @
         process_cdc_for_cliente ys target_schema target_table now"
  using assms unfolding process_cdc_for_cliente_def
  by (auto simp: process_rows_append)

theorem filter_drops_other_table_witness:
  "parse_test_decoding_row (data sample_other_case) =
     Some \<lparr>schema = ''db_loja'', table = ''Cliente'', op = ''INSERT'', cols = [(''id'', ''1'')]\<rparr>
   \<and> ''Cliente'' \<noteq> ''cliente''
   \<and> process_cdc_for_cliente ([] @ sample_other_case # []) ''db_loja'' ''cliente'' sample_t_capture =
       process_cdc_for_cliente [] ''db_loja'' ''cliente'' sample_t_capture @
       process_cdc_for_cliente [] ''db_loja'' ''cliente'' sample_t_capture"
proof -
  have d: "parse_test_decoding_row (data sample_other_case) =
     Some \<lparr>schema = ''db_loja'', table = ''Cliente'', op = ''INSERT'', cols = [(''id'', ''1'')]\<rparr>"
    by code_simp
  have n: "''Cliente'' \<noteq> ''cliente''"
    by simp
  from d n filter_drops_other_table [OF d, of "''db_loja''" "''cliente''" "[]" "[]" sample_t_capture]
  show ?thesis
    by simp
qed

text \<open>
  Claim C9. Every record that the filter produces in one run carries the same capture
  timestamp: the text of the one clock reading taken before the entries are processed.
\<close>

theorem capture_ts_shared:
  "c \<in> set (process_cdc_for_cliente raw_rows target_schema target_table now) \<Longrightarrow>
   capture_ts c = isoformat now"
  unfolding process_cdc_for_cliente_def by (rule process_rows_capture_ts)

theorem capture_ts_shared_witness:
  "\<lparr>capture_ts = ''2024-12-31T23:59:59.000125'', row_lsn = ''0/16B3760'', row_op = ''DELETE'',
     columns = json_dumps [(''id'', ''7'')]\<rparr>
     \<in> set (process_cdc_for_cliente
          [\<lparr>lsn = ''0/16B3748'', xid = 731, data = ''table db_loja.cliente: UPDATE: id[integer]:3''\<rparr>,
           \<lparr>lsn = ''0/16B3760'', xid = 731, data = ''table db_loja.cliente: DELETE: id[integer]:7''\<rparr>]
          ''db_loja'' ''cliente'' sample_t_capture)
   \<and> ''2024-12-31T23:59:59.000125'' = isoformat sample_t_capture"
proof -
  let ?c = "\<lparr>capture_ts = ''2024-12-31T23:59:59.000125'', row_lsn = ''0/16B3760'',
              row_op = ''DELETE'', columns = json_dumps [(''id'', ''7'')]\<rparr>"
  let ?rows = "[\<lparr>lsn = ''0/16B3748'', xid = 731, data = ''table db_loja.cliente: UPDATE: id[integer]:3''\<rparr>,
           \<lparr>lsn = ''0/16B3760'', xid = 731, data = ''table db_loja.cliente: DELETE: id[integer]:7''\<rparr>]"
  have m: "?c \<in> set (process_cdc_for_cliente ?rows ''db_loja'' ''cliente'' sample_t_capture)"
    by code_simp
  from m capture_ts_shared [OF m] show ?thesis
    by simp
qed

section \<open>The request sent to the slot\<close>

text \<open>
  Claim C8, as amended. Every fetch asks the slot for its changes with the option
  \<open>skip-empty-xacts\<close> set to \<open>1\<close> and the option \<open>include-xids\<close> set to \<open>0\<close>: empty
  transactions are skipped, and transaction ids are left out of the payload text.
\<close>

theorem fetch_options:
  "options (get_changes_call slot_name limit) =
     [(''include-xids'', ''0''), (''skip-empty-xacts'', ''1'')]
   \<and> (\<forall>engine. fetch_cdc_changes engine slot_name limit =
         (case engine (get_changes_call slot_name limit) of
            Inl e \<Rightarrow> Inl e
          | Inr res \<Rightarrow> Inr (map (\<lambda>(l, x, d). \<lparr>lsn = l, xid = x, data = d\<rparr>) res)))"
  by (simp add: get_changes_call_def fetch_cdc_changes_def)

theorem include_xids_counterexample:
  "map_of (options (get_changes_call ''data_sync_slot'' 1000)) ''include-xids'' \<noteq> Some ''1''"
  by (simp add: get_changes_call_def)

section \<open>The object written\<close>

lemma encode_utf8_append: "encode_utf8 (a @ b) = encode_utf8 a @ encode_utf8 b"
  by (simp add: encode_utf8_def)

lemma header_bytes:
  "encode_utf8 (''capture_ts,lsn,op,columns'' @ [newline]) = ''capture_ts,lsn,op,columns'' @ [newline]"
  by (simp add: encode_utf8_def encode_char_def newline_def)

lemma csv_header_row:
  "csv_row [''capture_ts'', ''lsn'', ''op'', ''columns''] = ''capture_ts,lsn,op,columns'' @ [newline]"
  by (simp add: csv_row_def csv_line_def csv_field_def csv_special_def)

lemma to_csv_header:
  assumes "df \<noteq> []"
  shows "prefix (''capture_ts,lsn,op,columns'' @ [newline]) (encode_utf8 (to_csv df))"
proof -
  let ?R = "concat (map (\<lambda>r. csv_row [capture_ts r, row_lsn r, row_op r, columns r]) df)"
  from assms have "to_csv df = (''capture_ts,lsn,op,columns'' @ [newline]) @ ?R"
    by (simp only: to_csv_def df_columns_def csv_header_row if_False)
  then have "encode_utf8 (to_csv df) =
      encode_utf8 (''capture_ts,lsn,op,columns'' @ [newline]) @ encode_utf8 ?R"
    by (simp only: encode_utf8_append)
  then have "encode_utf8 (to_csv df) = (''capture_ts,lsn,op,columns'' @ [newline]) @ encode_utf8 ?R"
    by (simp only: header_bytes)
  then show ?thesis
    by (simp only: prefixI)
qed

lemma write_csv_to_minio_Inr:
  "write_csv_to_minio client bucket base_path df pfx now = Inr (name, client') \<Longrightarrow>
   name = base_path @ date_partition_str now @ ''/'' @ pfx @ ''_'' @ file_timestamp_str now @ ''.csv'' \<and>
   client' = client\<lparr>stored := stored client @
      [\<lparr>bucket_name = bucket, object_name = name, payload = encode_utf8 (to_csv df),
        payload_length = length (encode_utf8 (to_csv df)), content_type = ''text/csv''\<rparr>]\<rparr>"
  by (auto simp: write_csv_to_minio_def put_object_def Let_def split: if_splits)

lemma write_sample_record:
  "write_csv_to_minio sample_client ''raw'' ''inc/'' [sample_record] ''cliente_cdc'' sample_t_write =
   Inr (''inc/data=20250101/cliente_cdc_20250101_000000.csv'',
        \<lparr>stored =
           [\<lparr>bucket_name = ''raw'',
             object_name = ''inc/data=20250101/cliente_cdc_20250101_000000.csv'',
             payload = ''capture_ts,lsn,op,columns'' @ [newline] @
                       ''2025-01-01T00:00:00,0/16B3748,INSERT,{}'' @ [newline],
             payload_length = 66, content_type = ''text/csv''\<rparr>],
         online = True\<rparr>)"
  by code_simp

text \<open>
  Claim C1, as amended. For every non-empty frame of captured records, the bytes that
  the writer puts begin with the header row \<open>capture_ts,lsn,op,columns\<close> and a line
  feed; a frame of a single record is no exception.
\<close>

theorem csv_header_first:
  assumes "df \<noteq> []"
    and "write_csv_to_minio client bucket base_path df pfx now = Inr (name, client')"
  shows "stored client' \<noteq> [] \<and>
         prefix (''capture_ts,lsn,op,columns'' @ [newline]) (payload (last (stored client')))"
  using write_csv_to_minio_Inr [OF assms(2)] to_csv_header [OF assms(1)] by simp

theorem csv_header_first_witness:
  "[sample_record] \<noteq> []
   \<and> write_csv_to_minio sample_client ''raw'' ''inc/'' [sample_record] ''cliente_cdc'' sample_t_write =
       Inr (''inc/data=20250101/cliente_cdc_20250101_000000.csv'',
        \<lparr>stored =
           [\<lparr>bucket_name = ''raw'',
             object_name = ''inc/data=20250101/cliente_cdc_20250101_000000.csv'',
             payload = ''capture_ts,lsn,op,columns'' @ [newline] @
                       ''2025-01-01T00:00:00,0/16B3748,INSERT,{}'' @ [newline],
             payload_length = 66, content_type = ''text/csv''\<rparr>],
         online = True\<rparr>)
   \<and> prefix (''capture_ts,lsn,op,columns'' @ [newline])
        (''capture_ts,lsn,op,columns'' @ [newline] @
         ''2025-01-01T00:00:00,0/16B3748,INSERT,{}'' @ [newline])"
proof -
  have n: "[sample_record] \<noteq> []"
    by simp
  from csv_header_first [OF n write_sample_record] write_sample_record show ?thesis
    by simp
qed

theorem log_position_header_counterexample:
  "\<not> prefix ''capture_ts,log_position,op,columns'' (encode_utf8 (to_csv [sample_record]))"
  by code_simp

text \<open>
  Claim C7, as amended. In a run whose filter yields no record, the driver returns
  before the writer is called: the object store is left as it was and the run reports
  no destination path.
\<close>

theorem empty_frame_no_put:
  assumes "fetch_cdc_changes engine (CDC_SLOT_NAME cfg) (CDC_BATCH_LIMIT cfg) = Inr raw_rows"
    and "process_cdc_for_cliente raw_rows (PGSCHEMA cfg) TARGET_TABLE t_capture = []"
  shows "\<exists>oc. main cfg engine client t_capture t_write = Inr (oc, client) \<and> destination oc = None"
  using assms by (simp add: main_def Let_def)

theorem empty_frame_no_put_witness:
  "fetch_cdc_changes other_engine (CDC_SLOT_NAME sample_cfg) (CDC_BATCH_LIMIT sample_cfg) =
     Inr [\<lparr>lsn = ''0/16B3710'', xid = 732, data = ''BEGIN''\<rparr>,
          \<lparr>lsn = ''0/16B3750'', xid = 732, data = ''table db_loja.pedido: INSERT: id[integer]:9''\<rparr>,
          \<lparr>lsn = ''0/16B3790'', xid = 732, data = ''COMMIT''\<rparr>]
   \<and> (\<exists>oc. main sample_cfg other_engine sample_client sample_t_capture sample_t_write =
              Inr (oc, sample_client) \<and> destination oc = None)"
proof -
  let ?rows = "[\<lparr>lsn = ''0/16B3710'', xid = 732, data = ''BEGIN''\<rparr>,
          \<lparr>lsn = ''0/16B3750'', xid = 732, data = ''table db_loja.pedido: INSERT: id[integer]:9''\<rparr>,
          \<lparr>lsn = ''0/16B3790'', xid = 732, data = ''COMMIT''\<rparr>]"
  have f: "fetch_cdc_changes other_engine (CDC_SLOT_NAME sample_cfg) (CDC_BATCH_LIMIT sample_cfg) =
     Inr ?rows"
    by code_simp
  have e: "process_cdc_for_cliente ?rows (PGSCHEMA sample_cfg) TARGET_TABLE sample_t_capture = []"
    by code_simp
  from f empty_frame_no_put [OF f e, of sample_client sample_t_write] show ?thesis
    by simp
qed

theorem writer_puts_empty_frame_counterexample:
  "write_csv_to_minio sample_client ''raw'' ''inc/'' [] ''cliente_cdc'' sample_t_write =
   Inr (''inc/data=20250101/cliente_cdc_20250101_000000.csv'',
        \<lparr>stored =
           [\<lparr>bucket_name = ''raw'',
             object_name = ''inc/data=20250101/cliente_cdc_20250101_000000.csv'',
             payload = [newline], payload_length = 1, content_type = ''text/csv''\<rparr>],
         online = True\<rparr>)"
  by code_simp

section \<open>The two clock readings of a run\<close>

lemma main_sample:
  "main sample_cfg sample_engine sample_client sample_t_capture sample_t_write =
   Inr (Written ''inc/data=20250101/cliente_cdc_20250101_000000.csv'' 2,
        \<lparr>stored =
           [\<lparr>bucket_name = ''raw'',
             object_name = ''inc/data=20250101/cliente_cdc_20250101_000000.csv'',
             payload = encode_utf8 (to_csv
               [\<lparr>capture_ts = ''2024-12-31T23:59:59.000125'', row_lsn = ''0/16B3748'',
                  row_op = ''INSERT'', columns = json_dumps [(''id'', ''1''), (''name'', ''Ana Silva'')]\<rparr>,
                \<lparr>capture_ts = ''2024-12-31T23:59:59.000125'', row_lsn = ''0/16B3760'',
                  row_op = ''DELETE'', columns = json_dumps [(''id'', ''7'')]\<rparr>]),
             payload_length = 175, content_type = ''text/csv''\<rparr>],
         online = True\<rparr>)"
  by code_simp

lemma sample_partitions_differ:
  "date_partition_str sample_t_capture = ''data=20241231'' \<and>
   date_partition_str sample_t_write = ''data=20250101''"
  by code_simp

lemma process_capture_ts_all:
  "list_all (\<lambda>c. capture_ts c = isoformat now) (process_cdc_for_cliente raw_rows ts tt now)"
  unfolding process_cdc_for_cliente_def list_all_iff
  using process_rows_capture_ts by blast

text \<open>
  Claim C10. With the two clock readings of a run as inputs, the destination path of a
  written batch is built from the writer's reading alone, and every record of the batch
  carries the text of the filter's reading; the date in the path can therefore differ
  from the date in the records, as it does for a batch captured just before midnight
  and written just after.
\<close>

theorem path_from_write_clock:
  assumes "main cfg engine client t_capture t_write = Inr (Written dest n, client')"
  shows "dest = ''inc/'' @ date_partition_str t_write @ ''/cliente_cdc_'' @
                file_timestamp_str t_write @ ''.csv''
     \<and> (\<exists>df. df \<noteq> [] \<and> length df = n
            \<and> list_all (\<lambda>c. capture_ts c = isoformat t_capture) df
            \<and> stored client' = stored client @
                 [\<lparr>bucket_name = ''raw'', object_name = dest,
                   payload = encode_utf8 (to_csv df),
                   payload_length = length (encode_utf8 (to_csv df)),
                   content_type = ''text/csv''\<rparr>])
     \<and> (\<exists>cfg engine client tc tw dest n client'.
            main cfg engine client tc tw = Inr (Written dest n, client')
            \<and> date_partition_str tc \<noteq> date_partition_str tw)"
proof (intro conjI)
  obtain raw_rows where
    f: "fetch_cdc_changes engine (CDC_SLOT_NAME cfg) (CDC_BATCH_LIMIT cfg) = Inr raw_rows"
    using assms by (cases "fetch_cdc_changes engine (CDC_SLOT_NAME cfg) (CDC_BATCH_LIMIT cfg)")
      (auto simp: main_def)
  let ?df = "process_cdc_for_cliente raw_rows (PGSCHEMA cfg) TARGET_TABLE t_capture"
  from assms f have ne: "?df \<noteq> []" and n: "length ?df = n"
    and w: "write_csv_to_minio client BUCKET_NAME RAW_INC_BASE_PATH ?df ''cliente_cdc'' t_write =
            Inr (dest, client')"
    by (auto simp: main_def Let_def split: if_splits sum.splits)
  from write_csv_to_minio_Inr [OF w]
  show "dest = ''inc/'' @ date_partition_str t_write @ ''/cliente_cdc_'' @
                file_timestamp_str t_write @ ''.csv''"
    by (simp add: RAW_INC_BASE_PATH_def)
  from write_csv_to_minio_Inr [OF w] ne n process_capture_ts_all
  show "\<exists>df. df \<noteq> [] \<and> length df = n
            \<and> list_all (\<lambda>c. capture_ts c = isoformat t_capture) df
            \<and> stored client' = stored client @
                 [\<lparr>bucket_name = ''raw'', object_name = dest,
                   payload = encode_utf8 (to_csv df),
                   payload_length = length (encode_utf8 (to_csv df)),
                   content_type = ''text/csv''\<rparr>]"
    by (intro exI [of _ ?df]) (simp add: BUCKET_NAME_def)
  from main_sample sample_partitions_differ
  show "\<exists>cfg engine client tc tw dest n client'.
            main cfg engine client tc tw = Inr (Written dest n, client')
            \<and> date_partition_str tc \<noteq> date_partition_str tw"
    by (intro exI [of _ sample_cfg] exI [of _ sample_engine] exI [of _ sample_client]
          exI [of _ sample_t_capture] exI [of _ sample_t_write]) simp
qed

theorem path_from_write_clock_witness:
  "main sample_cfg sample_engine sample_client sample_t_capture sample_t_write =
   Inr (Written ''inc/data=20250101/cliente_cdc_20250101_000000.csv'' 2,
        \<lparr>stored =
           [\<lparr>bucket_name = ''raw'',
             object_name = ''inc/data=20250101/cliente_cdc_20250101_000000.csv'',
             payload = encode_utf8 (to_csv
               [\<lparr>capture_ts = ''2024-12-31T23:59:59.000125'', row_lsn = ''0/16B3748'',
                  row_op = ''INSERT'', columns = json_dumps [(''id'', ''1''), (''name'', ''Ana Silva'')]\<rparr>,
                \<lparr>capture_ts = ''2024-12-31T23:59:59.000125'', row_lsn = ''0/16B3760'',
                  row_op = ''DELETE'', columns = json_dumps [(''id'', ''7'')]\<rparr>]),
             payload_length = 175, content_type = ''text/csv''\<rparr>],
         online = True\<rparr>)
   \<and> ''inc/data=20250101/cliente_cdc_20250101_000000.csv'' =
       ''inc/'' @ date_partition_str sample_t_write @ ''/cliente_cdc_'' @
       file_timestamp_str sample_t_write @ ''.csv''
   \<and> isoformat sample_t_capture = ''2024-12-31T23:59:59.000125''"
proof -
  have i: "isoformat sample_t_capture = ''2024-12-31T23:59:59.000125''"
    by code_simp
  from path_from_write_clock [OF main_sample] main_sample i show ?thesis
    by simp
qed

section \<open>What a match of the table pattern looks like\<close>

lemma ms_cat_Nil: "ms (cat []) st = [st]"
  by (simp add: cat_def)

lemma ms_cat_Cons: "ms (cat (r # rs)) st = concat (map (ms (cat rs)) (ms r st))"
  by (simp add: cat_def)

lemma greedy_mem:
  "x \<in> set (greedy p (i, s, g)) \<longleftrightarrow>
   (\<exists>u v. s = u @ v \<and> list_all p u \<and> x = (i + length u, v, g))"
proof (induction s arbitrary: i)
  case Nil
  then show ?case by auto
next
  case (Cons c s)
  show ?case
  proof (cases "p c")
    case True
    have "(\<exists>u v. c # s = u @ v \<and> list_all p u \<and> x = (i + length u, v, g)) \<longleftrightarrow>
          x = (i, c # s, g) \<or> (\<exists>u v. s = u @ v \<and> list_all p u \<and> x = (Suc i + length u, v, g))"
      (is "?L \<longleftrightarrow> ?R")
    proof
      assume ?L
      then obtain u v where h: "c # s = u @ v" "list_all p u" "x = (i + length u, v, g)"
        by blast
      show ?R
      proof (cases u)
        case Nil
        with h show ?thesis by simp
      next
        case (Cons a u')
        with h show ?thesis by auto
      qed
    next
      assume ?R
      then show ?L
      proof
        assume "x = (i, c # s, g)"
        then have "c # s = [] @ (c # s) \<and> list_all p [] \<and> x = (i + length ([]::string), c # s, g)"
          by simp
        then show ?L by blast
      next
        assume "\<exists>u v. s = u @ v \<and> list_all p u \<and> x = (Suc i + length u, v, g)"
        then obtain u v where "s = u @ v" "list_all p u" "x = (Suc i + length u, v, g)"
          by blast
        with True have "c # s = (c # u) @ v \<and> list_all p (c # u) \<and> x = (i + length (c # u), v, g)"
          by simp
        then show ?L by blast
      qed
    qed
    with True Cons.IH [of "Suc i"] show ?thesis
      by auto
  next
    case False
    have "(\<exists>u v. c # s = u @ v \<and> list_all p u \<and> x = (i + length u, v, g)) \<longleftrightarrow>
          x = (i, c # s, g)"
    proof
      assume "\<exists>u v. c # s = u @ v \<and> list_all p u \<and> x = (i + length u, v, g)"
      then obtain u v where h: "c # s = u @ v" "list_all p u" "x = (i + length u, v, g)"
        by blast
      with False show "x = (i, c # s, g)"
        by (cases u) auto
    next
      assume "x = (i, c # s, g)"
      then have "c # s = [] @ (c # s) \<and> list_all p [] \<and> x = (i + length ([]::string), c # s, g)"
        by simp
      then show "\<exists>u v. c # s = u @ v \<and> list_all p u \<and> x = (i + length u, v, g)"
        by blast
    qed
    with False show ?thesis
      by simp
  qed
qed

lemma ms_Lit_mem:
  "x \<in> set (ms (Lit l) (i, s, g)) \<longleftrightarrow> (\<exists>v. s = l @ v \<and> x = (i + length l, v, g))"
  by (auto simp: prefix_def)

lemma ms_Plus_mem:
  "x \<in> set (ms (Plus p) (i, s, g)) \<longleftrightarrow>
   (\<exists>u v. s = u @ v \<and> u \<noteq> [] \<and> list_all p u \<and> x = (i + length u, v, g))"
proof (cases s)
  case Nil
  then show ?thesis by (simp add: Plus_def)
next
  case (Cons c cs)
  show ?thesis
  proof (cases "p c")
    case True
    have "(\<exists>u v. c # cs = u @ v \<and> u \<noteq> [] \<and> list_all p u \<and> x = (i + length u, v, g)) \<longleftrightarrow>
          (\<exists>u v. cs = u @ v \<and> list_all p u \<and> x = (Suc i + length u, v, g))"
      (is "?L \<longleftrightarrow> ?R")
    proof
      assume ?L
      then obtain u v where h: "c # cs = u @ v" "u \<noteq> []" "list_all p u" "x = (i + length u, v, g)"
        by blast
      then show ?R by (cases u) auto
    next
      assume ?R
      then obtain u v where "cs = u @ v" "list_all p u" "x = (Suc i + length u, v, g)"
        by blast
      with True have "c # cs = (c # u) @ v \<and> c # u \<noteq> [] \<and> list_all p (c # u)
          \<and> x = (i + length (c # u), v, g)"
        by simp
      then show ?L by blast
    qed
    with True Cons show ?thesis
      by (simp add: Plus_def greedy_mem)
  next
    case False
    have "\<not> (\<exists>u v. c # cs = u @ v \<and> u \<noteq> [] \<and> list_all p u \<and> x = (i + length u, v, g))"
    proof
      assume "\<exists>u v. c # cs = u @ v \<and> u \<noteq> [] \<and> list_all p u \<and> x = (i + length u, v, g)"
      then obtain u v where "c # cs = u @ v" "u \<noteq> []" "list_all p u"
        by blast
      with False show False by (cases u) auto
    qed
    with False Cons show ?thesis
      by (simp add: Plus_def)
  qed
qed

lemma ms_Group_mem:
  "x \<in> set (ms (Group n r) (i, s, g)) \<longleftrightarrow>
   (\<exists>j v g'. (j, v, g') \<in> set (ms r (i, s, g)) \<and> x = (j, v, (n, take (j - i) s) # g'))"
  by (auto simp: image_iff) force+

lemma ms_op_mem:
  "x \<in> set (ms (Alt (Lit ''INSERT'') (Alt (Lit ''UPDATE'') (Lit ''DELETE''))) (i, s, g)) \<Longrightarrow>
   \<exists>opn v. s = opn @ v \<and> opn \<in> {''INSERT'', ''UPDATE'', ''DELETE''} \<and> length opn = 6
           \<and> x = (i + 6, v, g)"
  by (auto simp: prefix_def split: if_splits)

lemma cat_mem:
  "m \<in> set (ms (cat (r # rs)) st) \<longleftrightarrow> (\<exists>y \<in> set (ms r st). m \<in> set (ms (cat rs) y))"
  by (simp add: ms_cat_Cons)

lemma step_Bol:
  assumes "m \<in> set (ms (cat (Bol # rs)) (0, s, g))"
  shows "m \<in> set (ms (cat rs) (0, s, g))"
  using assms by (simp add: ms_cat_Cons)

lemma step_Lit:
  assumes "m \<in> set (ms (cat (Lit l # rs)) (i, s, g))"
  shows "\<exists>v k. s = l @ v \<and> m \<in> set (ms (cat rs) (k, v, g))"
proof -
  from assms obtain y where "y \<in> set (ms (Lit l) (i, s, g))" "m \<in> set (ms (cat rs) y)"
    unfolding cat_mem by blast
  then show ?thesis
    unfolding ms_Lit_mem by blast
qed

lemma step_Plus:
  assumes "m \<in> set (ms (cat (Plus p # rs)) (i, s, g))"
  shows "\<exists>u v k. s = u @ v \<and> u \<noteq> [] \<and> list_all p u \<and> m \<in> set (ms (cat rs) (k, v, g))"
proof -
  from assms obtain y where "y \<in> set (ms (Plus p) (i, s, g))" "m \<in> set (ms (cat rs) y)"
    unfolding cat_mem by blast
  then show ?thesis
    unfolding ms_Plus_mem by blast
qed

lemma step_Group_Plus:
  assumes "m \<in> set (ms (cat (Group n (Plus p) # rs)) (i, s, g))"
  shows "\<exists>u v k. s = u @ v \<and> u \<noteq> [] \<and> list_all p u \<and> m \<in> set (ms (cat rs) (k, v, (n, u) # g))"
proof -
  from assms obtain y where y: "y \<in> set (ms (Group n (Plus p)) (i, s, g))" "m \<in> set (ms (cat rs) y)"
    unfolding cat_mem by blast
  from y(1) obtain u v where "s = u @ v" "u \<noteq> []" "list_all p u"
      "y = (i + length u, v, (n, take (i + length u - i) s) # g)"
    unfolding ms_Group_mem ms_Plus_mem by blast
  with y(2) show ?thesis
    by auto
qed

lemma step_Group_op:
  assumes "m \<in> set (ms (cat (Group n (Alt (Lit ''INSERT'') (Alt (Lit ''UPDATE'') (Lit ''DELETE''))) # rs))
                       (i, s, g))"
  shows "\<exists>u v k. s = u @ v \<and> u \<in> {''INSERT'', ''UPDATE'', ''DELETE''}
                \<and> m \<in> set (ms (cat rs) (k, v, (n, u) # g))"
proof -
  let ?r = "Alt (Lit ''INSERT'') (Alt (Lit ''UPDATE'') (Lit ''DELETE''))"
  from assms obtain y where y: "y \<in> set (ms (Group n ?r) (i, s, g))" "m \<in> set (ms (cat rs) y)"
    unfolding cat_mem by blast
  from y(1) obtain j v g' where j: "(j, v, g') \<in> set (ms ?r (i, s, g))"
      "y = (j, v, (n, take (j - i) s) # g')"
    unfolding ms_Group_mem by blast
  from ms_op_mem [OF j(1)] obtain u where u: "s = u @ v" "u \<in> {''INSERT'', ''UPDATE'', ''DELETE''}"
      "length u = 6" "j = i + 6" "g' = g"
    by blast
  then have "take (j - i) s = u"
    by simp
  with y(2) j(2) u(5) have "m \<in> set (ms (cat rs) (j, v, (n, u) # g))"
    by simp
  with u(1,2) show ?thesis
    by blast
qed

lemma step_Group_Star_Eol:
  assumes "m \<in> set (ms (cat [Group n (Star p), Eol]) (i, s, g))"
  shows "\<exists>u v. s = u @ v \<and> list_all p u \<and> (v = [] \<or> v = [newline])
               \<and> snd (snd m) = (n, u) # g"
proof -
  from assms obtain y where y: "y \<in> set (ms (Group n (Star p)) (i, s, g))"
      "m \<in> set (ms (cat [Eol]) y)"
    unfolding cat_mem by blast
  from y(1) obtain j v g' where j: "(j, v, g') \<in> set (ms (Star p) (i, s, g))"
      "y = (j, v, (n, take (j - i) s) # g')"
    unfolding ms_Group_mem by blast
  from j(1) have "(j, v, g') \<in> set (greedy p (i, s, g))"
    by simp
  then obtain u where u: "s = u @ v" "list_all p u" "j = i + length u" "g' = g"
    unfolding greedy_mem by blast
  then have t: "take (j - i) s = u"
    by simp
  from y(2) have "m \<in> set (ms Eol y)"
    by (simp add: ms_cat_Cons ms_cat_Nil)
  with j(2) t u(4) have "(v = [] \<or> v = [newline]) \<and> snd (snd m) = (n, u) # g"
    by (auto split: if_splits)
  with u show ?thesis
    by blast
qed

lemma TBL_RE_sound:
  assumes "m \<in> set (ms TBL_RE (0, s, []))"
  shows "\<exists>w1 sch tbl w2 opn w3 rest tl.
           s = ''table'' @ w1 @ sch @ ''.'' @ tbl @ '':'' @ w2 @ opn @ '':'' @ w3 @ rest @ tl
         \<and> w1 \<noteq> [] \<and> list_all is_space w1 \<and> sch \<noteq> [] \<and> list_all not_dot sch
         \<and> tbl \<noteq> [] \<and> list_all is_tbl tbl \<and> w2 \<noteq> [] \<and> list_all is_space w2
         \<and> opn \<in> {''INSERT'', ''UPDATE'', ''DELETE''}
         \<and> w3 \<noteq> [] \<and> list_all is_space w3 \<and> list_all any_char rest
         \<and> (tl = [] \<or> tl = [newline])
         \<and> snd (snd m) = [(4, rest), (3, opn), (2, tbl), (1, sch)]"
proof -
  from assms have a0: "m \<in> set (ms (cat [Lit ''table'', Plus is_space, Group 1 (Plus not_dot), Lit ''.'',
                 Group 2 (Plus is_tbl), Lit '':'', Plus is_space,
                 Group 3 (Alt (Lit ''INSERT'') (Alt (Lit ''UPDATE'') (Lit ''DELETE''))),
                 Lit '':'', Plus is_space, Group 4 (Star any_char), Eol]) (0, s, []))"
    unfolding TBL_RE_def by (rule step_Bol)
  from step_Lit [OF a0] obtain s1 k1 where s1: "s = ''table'' @ s1"
    and a1: "m \<in> set (ms (cat [Plus is_space, Group 1 (Plus not_dot), Lit ''.'',
                 Group 2 (Plus is_tbl), Lit '':'', Plus is_space,
                 Group 3 (Alt (Lit ''INSERT'') (Alt (Lit ''UPDATE'') (Lit ''DELETE''))),
                 Lit '':'', Plus is_space, Group 4 (Star any_char), Eol]) (k1, s1, []))"
    by blast
  from step_Plus [OF a1] obtain w1 s2 k2 where s2: "s1 = w1 @ s2" "w1 \<noteq> []" "list_all is_space w1"
    and a2: "m \<in> set (ms (cat [Group 1 (Plus not_dot), Lit ''.'',
                 Group 2 (Plus is_tbl), Lit '':'', Plus is_space,
                 Group 3 (Alt (Lit ''INSERT'') (Alt (Lit ''UPDATE'') (Lit ''DELETE''))),
                 Lit '':'', Plus is_space, Group 4 (Star any_char), Eol]) (k2, s2, []))"
    by blast
  from step_Group_Plus [OF a2] obtain sch s3 k3 where s3: "s2 = sch @ s3" "sch \<noteq> []" "list_all not_dot sch"
    and a3: "m \<in> set (ms (cat [Lit ''.'',
                 Group 2 (Plus is_tbl), Lit '':'', Plus is_space,
                 Group 3 (Alt (Lit ''INSERT'') (Alt (Lit ''UPDATE'') (Lit ''DELETE''))),
                 Lit '':'', Plus is_space, Group 4 (Star any_char), Eol])
               (k3, s3, [(1, sch)]))"
    by blast
  from step_Lit [OF a3] obtain s4 k4 where s4: "s3 = ''.'' @ s4"
    and a4: "m \<in> set (ms (cat [Group 2 (Plus is_tbl), Lit '':'', Plus is_space,
                 Group 3 (Alt (Lit ''INSERT'') (Alt (Lit ''UPDATE'') (Lit ''DELETE''))),
                 Lit '':'', Plus is_space, Group 4 (Star any_char), Eol])
               (k4, s4, [(1, sch)]))"
    by blast
  from step_Group_Plus [OF a4] obtain tbl s5 k5 where s5: "s4 = tbl @ s5" "tbl \<noteq> []" "list_all is_tbl tbl"
    and a5: "m \<in> set (ms (cat [Lit '':'', Plus is_space,
                 Group 3 (Alt (Lit ''INSERT'') (Alt (Lit ''UPDATE'') (Lit ''DELETE''))),
                 Lit '':'', Plus is_space, Group 4 (Star any_char), Eol])
               (k5, s5, [(2, tbl), (1, sch)]))"
    by blast
  from step_Lit [OF a5] obtain s6 k6 where s6: "s5 = '':'' @ s6"
    and a6: "m \<in> set (ms (cat [Plus is_space,
                 Group 3 (Alt (Lit ''INSERT'') (Alt (Lit ''UPDATE'') (Lit ''DELETE''))),
                 Lit '':'', Plus is_space, Group 4 (Star any_char), Eol])
               (k6, s6, [(2, tbl), (1, sch)]))"
    by blast
  from step_Plus [OF a6] obtain w2 s7 k7 where s7: "s6 = w2 @ s7" "w2 \<noteq> []" "list_all is_space w2"
    and a7: "m \<in> set (ms (cat [
                 Group 3 (Alt (Lit ''INSERT'') (Alt (Lit ''UPDATE'') (Lit ''DELETE''))),
                 Lit '':'', Plus is_space, Group 4 (Star any_char), Eol])
               (k7, s7, [(2, tbl), (1, sch)]))"
    by blast
  from step_Group_op [OF a7] obtain opn s8 k8 where s8: "s7 = opn @ s8" "opn \<in> {''INSERT'', ''UPDATE'', ''DELETE''}"
    and a8: "m \<in> set (ms (cat [Lit '':'', Plus is_space, Group 4 (Star any_char), Eol])
               (k8, s8, [(3, opn), (2, tbl), (1, sch)]))"
    by blast
  from step_Lit [OF a8] obtain s9 k9 where s9: "s8 = '':'' @ s9"
    and a9: "m \<in> set (ms (cat [Plus is_space, Group 4 (Star any_char), Eol])
               (k9, s9, [(3, opn), (2, tbl), (1, sch)]))"
    by blast
  from step_Plus [OF a9] obtain w3 s10 k10 where s10: "s9 = w3 @ s10" "w3 \<noteq> []" "list_all is_space w3"
    and a10: "m \<in> set (ms (cat [Group 4 (Star any_char), Eol])
               (k10, s10, [(3, opn), (2, tbl), (1, sch)]))"
    by blast
  from step_Group_Star_Eol [OF a10] obtain rest tl where s11: "s10 = rest @ tl" "list_all any_char rest"
    "tl = [] \<or> tl = [newline]" "snd (snd m) = [(4, rest), (3, opn), (2, tbl), (1, sch)]"
    by blast
  have e: "s = ''table'' @ w1 @ sch @ ''.'' @ tbl @ '':'' @ w2 @ opn @ '':'' @ w3 @ rest @ tl"
    unfolding s1 s2(1) s3(1) s4 s5(1) s6 s7(1) s8(1) s9 s10(1) s11(1) by simp
  from e s2(2,3) s3(2,3) s5(2,3) s7(2,3) s8(2) s10(2,3) s11(2,3,4) show ?thesis
    by blast
qed

lemma parse_Some_match:
  assumes "parse_test_decoding_row raw = Some p"
  shows "\<exists>m. m \<in> set (ms TBL_RE (0, strip raw, [])) \<and> schema p = group m 1 \<and> table p = group m 2
           \<and> op p = group m 3"
proof -
  from assms obtain m where m: "re_match TBL_RE (strip raw) = Some m"
    and p: "schema p = group m 1" "table p = group m 2" "op p = group m 3"
    by (auto simp: parse_test_decoding_row_def split: option.splits)
  from m have "m \<in> set (ms TBL_RE (0, strip raw, []))"
    by (auto simp: re_match_def split: list.splits)
  with p show ?thesis
    by blast
qed

lemma parse_Some_prefix:
  assumes "parse_test_decoding_row raw = Some p"
  shows "has_table_prefix (strip raw)"
proof -
  from parse_Some_match [OF assms] obtain m where "m \<in> set (ms TBL_RE (0, strip raw, []))"
    by blast
  from TBL_RE_sound [OF this] show ?thesis
    unfolding has_table_prefix_def by blast
qed

lemma parse_Some_op:
  assumes "parse_test_decoding_row raw = Some p"
  shows "op p \<in> {''INSERT'', ''UPDATE'', ''DELETE''}"
proof -
  from parse_Some_match [OF assms] obtain m where m: "m \<in> set (ms TBL_RE (0, strip raw, []))"
    and p: "op p = group m 3"
    by blast
  from TBL_RE_sound [OF m] obtain sch tbl opn rest where
    "opn \<in> {''INSERT'', ''UPDATE'', ''DELETE''}" "snd (snd m) = [(4, rest), (3, opn), (2, tbl), (1, sch)]"
    by blast
  with p show ?thesis
    by (simp add: group_def)
qed

text \<open>
  Claim C3, as amended. For every input whose text, once leading and trailing white
  space is removed, does not have the table prefix, the decoder returns the empty
  result: no record is produced and nothing is raised.
\<close>

theorem no_prefix_no_record:
  "\<not> has_table_prefix (strip raw) \<Longrightarrow> parse_test_decoding_row raw = None"
  using parse_Some_prefix by (cases "parse_test_decoding_row raw") auto

lemma strip_begin: "strip ''BEGIN 1234'' = ''BEGIN 1234''"
  by code_simp

theorem no_prefix_no_record_witness:
  "\<not> has_table_prefix (strip ''BEGIN 1234'') \<and> parse_test_decoding_row ''BEGIN 1234'' = None"
proof -
  have n: "\<not> has_table_prefix (strip ''BEGIN 1234'')"
    unfolding strip_begin has_table_prefix_def by simp
  from n no_prefix_no_record [OF n] show ?thesis
    by simp
qed

theorem leading_space_counterexample:
  "\<not> has_table_prefix '' table pub.cliente: INSERT: id[integer]:1''
   \<and> parse_test_decoding_row '' table pub.cliente: INSERT: id[integer]:1'' =
       Some \<lparr>schema = ''pub'', table = ''cliente'', op = ''INSERT'', cols = [(''id'', ''1'')]\<rparr>"
proof -
  have n: "\<not> has_table_prefix '' table pub.cliente: INSERT: id[integer]:1''"
    unfolding has_table_prefix_def by simp
  have d: "parse_test_decoding_row '' table pub.cliente: INSERT: id[integer]:1'' =
       Some \<lparr>schema = ''pub'', table = ''cliente'', op = ''INSERT'', cols = [(''id'', ''1'')]\<rparr>"
    by code_simp
  from n d show ?thesis
    by simp
qed

end
